theory Spec2Isabelle
  imports Complex_Main "HOL-Library.Sublist" "HOL-Library.AList"
begin

section \<open>Story parameters and test context (test-runner.ts, lines 8-49)\<close>

datatype SupportedBrowserName = Chromium | Webkit

datatype SnapshotTheme = Legacy | Light | Dark

text \<open>The string a template literal produces for a browser or a theme.\<close>

fun browser_string :: "SupportedBrowserName \<Rightarrow> string" where
  "browser_string Chromium = ''chromium''"
| "browser_string Webkit = ''webkit''"

fun theme_string :: "SnapshotTheme \<Rightarrow> string" where
  "theme_string Legacy = ''legacy''"
| "theme_string Light = ''light''"
| "theme_string Dark = ''dark''"

text \<open>Every field of \<open>testOptions\<close> is optional: \<open>None\<close> is an absent (undefined) field.\<close>

record test_options =
  waitForLoadersToDisappear :: "bool option"
  waitForSelector :: "string option"
  excludeNavigationFromSnapshot :: "bool option"
  snapshotBrowsers :: "SupportedBrowserName list option"
  snapshotTargetSelector :: "string option"

record story_parameters =
  layout :: "string option"
  testOptions :: "test_options option"

record story_context =
  parameters :: "story_parameters option"

record test_context =
  context_id :: string

text \<open>\<open>storyContext.parameters?.testOptions ?? {}\<close> followed by the read of one field.\<close>

definition test_option :: "story_context \<Rightarrow> (test_options \<Rightarrow> 'a option) \<Rightarrow> 'a option" where
  "test_option storyContext field =
     (case parameters storyContext of
        None \<Rightarrow> None
      | Some p \<Rightarrow> (case testOptions p of None \<Rightarrow> None | Some t \<Rightarrow> field t))"

text \<open>\<open>storyContext.parameters?.layout\<close>.\<close>

definition layout_of :: "story_context \<Rightarrow> string option" where
  "layout_of storyContext =
     (case parameters storyContext of None \<Rightarrow> None | Some p \<Rightarrow> layout p)"

text \<open>A destructuring default: it applies to an absent field only.\<close>

definition with_default :: "'a \<Rightarrow> 'a option \<Rightarrow> 'a" where
  "with_default d v = (case v of None \<Rightarrow> d | Some x \<Rightarrow> x)"

section \<open>Constants (lines 51-66)\<close>

definition RETRY_TIMES :: nat where
  "RETRY_TIMES = 3"

definition LOADER_SELECTORS :: "string list" where
  "LOADER_SELECTORS =
     [''.ant-skeleton'', ''.Spinner'', ''.LemonSkeleton'', ''.LemonTableLoader'',
      ''.Toastify__toast-container'',
      ''[aria-busy='' @ [CHR 0x22] @ ''true'' @ [CHR 0x22] @ '']'',
      ''.SessionRecordingPlayer--buffering'', ''.Lettermark--unknown'']"

definition JEST_TIMEOUT_MS :: nat where
  "JEST_TIMEOUT_MS = 15000"

definition PLAYWRIGHT_TIMEOUT_MS :: nat where
  "PLAYWRIGHT_TIMEOUT_MS = 10000"

text \<open>\<open>Array.prototype.join\<close>.\<close>

fun join :: "string \<Rightarrow> string list \<Rightarrow> string" where
  "join sep [] = []"
| "join sep [x] = x"
| "join sep (x # y # ys) = x @ sep @ join sep (y # ys)"

section \<open>The selection of the check (lines 112-133)\<close>

datatype check_kind = FullPageSnapshot | SceneSnapshot | ComponentSnapshot

definition select_check :: "story_context \<Rightarrow> check_kind" where
  "select_check storyContext =
     (let excludeNavigation =
            with_default False (test_option storyContext excludeNavigationFromSnapshot)
      in if layout_of storyContext = Some ''fullscreen''
         then (if excludeNavigation then SceneSnapshot else FullPageSnapshot)
         else ComponentSnapshot)"

section \<open>The snapshot identifier (lines 303-309)\<close>

definition customSnapshotIdentifier ::
    "string \<Rightarrow> SnapshotTheme \<Rightarrow> SupportedBrowserName \<Rightarrow> string" where
  "customSnapshotIdentifier cid theme browser =
     (let s0 = cid;
          s1 = (if theme \<noteq> Legacy then s0 @ ''--'' @ theme_string theme else s0);
          s2 = (if browser \<noteq> Chromium then s1 @ ''--'' @ browser_string browser else s1)
      in s2)"

section \<open>The document the page evaluates its callbacks on\<close>

text \<open>
  The callbacks passed to \<open>page.evaluate\<close> read and write the DOM. An element carries
  what the callbacks touch: its tag name, id, class list, attributes and inline style.
  Layout is the browser's and an input here: an element has the position and the size
  the browser laid it out at (for the root element, as an inline block), its position
  does not depend on the inline style of the root element, and an inline \<open>width\<close> or
  \<open>height\<close> in pixels replaces the laid-out width or height. Lengths are real numbers.
\<close>

datatype css_value = Px real | Keyword string

record rect =
  rect_left :: real
  rect_top :: real
  rect_right :: real
  rect_bottom :: real

record element =
  localName :: string
  elem_id :: "string option"
  classList :: "string list"
  attributes :: "(string \<times> string) list"
  style :: "(string \<times> css_value) list"
  layoutLeft :: real
  layoutTop :: real
  layoutWidth :: real
  layoutHeight :: real

text \<open>\<open>elements\<close> are the descendants of \<open>body\<close> in document order.\<close>

record document =
  body :: element
  elements :: "element list"

text \<open>
  An inline length wins over the laid-out size; the left and top edges stay where the
  layout put them.
\<close>

definition used_length :: "string \<Rightarrow> real \<Rightarrow> element \<Rightarrow> real" where
  "used_length property laidOut e =
     (case map_of (style e) property of Some (Px v) \<Rightarrow> v | _ \<Rightarrow> laidOut)"

definition getBoundingClientRect :: "element \<Rightarrow> rect" where
  "getBoundingClientRect e =
     \<lparr>rect_left = layoutLeft e,
      rect_top = layoutTop e,
      rect_right = layoutLeft e + used_length ''width'' (layoutWidth e) e,
      rect_bottom = layoutTop e + used_length ''height'' (layoutHeight e) e\<rparr>"

text \<open>\<open>el.style.property = value\<close>.\<close>

definition set_style :: "string \<Rightarrow> css_value \<Rightarrow> element \<Rightarrow> element" where
  "set_style property v e = e\<lparr>style := AList.update property v (style e)\<rparr>"

text \<open>
  \<open>el.style.width = `${v}px`\<close> and the same for the height: CSS has no negative width
  or height, and the assignment of an invalid value leaves the style as it was.
\<close>

definition set_length_px :: "string \<Rightarrow> real \<Rightarrow> element \<Rightarrow> element" where
  "set_length_px property v e = (if v < 0 then e else set_style property (Px v) e)"

text \<open>
  \<open>el.setAttribute('style', text)\<close> replaces the whole inline style by the declarations
  of \<open>text\<close>, given here parsed.
\<close>

definition set_style_attribute ::
    "string \<Rightarrow> (string \<times> css_value) list \<Rightarrow> element \<Rightarrow> element" where
  "set_style_attribute text decls e =
     e\<lparr>attributes := AList.update ''style'' text (attributes e), style := decls\<rparr>"

definition setAttribute :: "string \<Rightarrow> string \<Rightarrow> element \<Rightarrow> element" where
  "setAttribute name v e = e\<lparr>attributes := AList.update name v (attributes e)\<rparr>"

text \<open>\<open>el.classList.add(c)\<close>: a class list has no duplicates.\<close>

definition classList_add :: "string \<Rightarrow> element \<Rightarrow> element" where
  "classList_add c e = (if c \<in> set (classList e) then e else e\<lparr>classList := classList e @ [c]\<rparr>)"

subsection \<open>Selectors\<close>

text \<open>
  The selectors the runner itself writes are simple: a class selector \<open>.c\<close>, an id
  selector \<open>#i\<close> or a type selector \<open>t\<close>, which HTML compares with the tag name without
  regard to case. Any other text is read as a type selector and the empty text
  matches nothing; of the matching, the theorems use that of \<open>.Popover\<close>,
  \<open>Navigation3000\<close> and \<open>main\<close> only.
\<close>

definition lower_char :: "char \<Rightarrow> char" where
  "lower_char c =
     (let n = (of_char c :: nat) in if 65 \<le> n \<and> n \<le> 90 then char_of (n + 32) else c)"

fun matches :: "string \<Rightarrow> element \<Rightarrow> bool" where
  "matches [] e = False"
| "matches (c # cs) e =
     (if c = CHR ''.'' then cs \<in> set (classList e)
      else if c = CHR ''#'' then elem_id e = Some cs
      else map lower_char (c # cs) = map lower_char (localName e))"

text \<open>The positions, in document order, of the elements a selector matches.\<close>

definition querySelectorAll :: "string \<Rightarrow> element list \<Rightarrow> nat list" where
  "querySelectorAll sel es = filter (\<lambda>i. matches sel (es ! i)) [0..<length es]"

definition querySelector :: "string \<Rightarrow> element list \<Rightarrow> nat option" where
  "querySelector sel es =
     (case querySelectorAll sel es of [] \<Rightarrow> None | i # _ \<Rightarrow> Some i)"

definition getElementById :: "string \<Rightarrow> element list \<Rightarrow> nat option" where
  "getElementById i es =
     (case filter (\<lambda>k. elem_id (es ! k) = Some i) [0..<length es] of
        [] \<Rightarrow> None
      | k # _ \<Rightarrow> Some k)"

section \<open>The styling callbacks (lines 198-201 and 238-274)\<close>

datatype error =
    TimeoutError string
  | Error string
  | StrictModeViolation string
  | ImageSnapshotMismatch string

text \<open>
  The body of \<open>forEach\<close> for one popover (lines 257-270). Both rectangles are read
  once, before the first assignment; each assignment is made on the root element as
  the former ones left it.
\<close>

definition expand_for_popover :: "nat \<Rightarrow> nat \<Rightarrow> element list \<Rightarrow> element list" where
  "expand_for_popover rootEl popover es =
     (let currentRootBoundingClientRect = getBoundingClientRect (es ! rootEl);
          popoverBoundingClientRect = getBoundingClientRect (es ! popover);
          es1 = (if rect_right popoverBoundingClientRect > rect_right currentRootBoundingClientRect
                 then es[rootEl := set_length_px ''width''
                        (rect_right popoverBoundingClientRect) (es ! rootEl)]
                 else es);
          es2 = (if rect_bottom popoverBoundingClientRect > rect_bottom currentRootBoundingClientRect
                 then es1[rootEl := set_length_px ''height''
                        (rect_bottom popoverBoundingClientRect) (es1 ! rootEl)]
                 else es1);
          es3 = (if rect_top popoverBoundingClientRect < rect_top currentRootBoundingClientRect
                 then es2[rootEl := set_length_px ''height''
                        (- rect_top popoverBoundingClientRect
                           + rect_bottom currentRootBoundingClientRect) (es2 ! rootEl)]
                 else es2);
          es4 = (if rect_left popoverBoundingClientRect < rect_left currentRootBoundingClientRect
                 then es3[rootEl := set_length_px ''width''
                        (- rect_left popoverBoundingClientRect
                           + rect_right currentRootBoundingClientRect) (es3 ! rootEl)]
                 else es3)
      in es4)"

text \<open>\<open>document.querySelectorAll('.Popover').forEach(...)\<close>: the node list is static.\<close>

definition expand_root :: "nat \<Rightarrow> element list \<Rightarrow> element list" where
  "expand_root rootEl es = fold (expand_for_popover rootEl) (querySelectorAll ''.Popover'' es) es"

text \<open>The callback of \<open>expectStoryToMatchComponentSnapshot\<close> (lines 238-274).\<close>

definition component_styling :: "SnapshotTheme \<Rightarrow> document \<Rightarrow> error + document" where
  "component_styling theme doc =
     (case getElementById ''storybook-root'' (elements doc) of
        None \<Rightarrow> Inl (Error ''Could not find root element'')
      | Some rootEl \<Rightarrow>
          (let es1 = (elements doc)[rootEl :=
                        set_style ''display'' (Keyword ''inline-block'') (elements doc ! rootEl)];
               es2 = expand_root rootEl es1;
               background = (if theme = Legacy then Keyword ''transparent''
                             else Keyword ''var(--bg-3000)'')
           in Inr (doc\<lparr>body := set_style ''background'' background (body doc),
                         elements := es2\<rparr>)))"

text \<open>
  The callback of \<open>expectStoryToMatchSceneSnapshot\<close> (lines 198-201):
  \<open>document.querySelector('Navigation3000')?.setAttribute('style', 'overflow: visible;')\<close>.
\<close>

definition scene_styling :: "document \<Rightarrow> document" where
  "scene_styling doc =
     (case querySelector ''Navigation3000'' (elements doc) of
        None \<Rightarrow> doc
      | Some i \<Rightarrow>
          doc\<lparr>elements := (elements doc)[i :=
                 set_style_attribute ''overflow: visible;'' [(''overflow'', Keyword ''visible'')]
                   (elements doc ! i)]\<rparr>)"

section \<open>The page, its environment and the steps of the runner\<close>

datatype locator = PageTarget | Locator string

datatype region = Viewport | Box rect

text \<open>A captured image is what it was taken of: the region, the option and the document.\<close>

record screenshot =
  shot_region :: region
  shot_omitBackground :: bool
  shot_document :: document

datatype comparison_method = Ssim | Pixelmatch

datatype threshold_type = Percent | Pixel

record image_snapshot_options =
  customSnapshotsDir :: string
  opt_customSnapshotIdentifier :: string
  comparisonMethod :: comparison_method
  failureThreshold :: real
  failureThresholdType :: threshold_type

datatype wait_state = Detached | Visible

text \<open>What the runner asks of the page, in the order it asks.\<close>

datatype event =
    WaitForPageReady
  | BodyClassListAdd string
  | BodySetAttribute string string
  | WaitForSelector string wait_state nat
  | WaitForTimeout nat
  | WaitForImages
  | SceneStyling
  | ComponentStyling SnapshotTheme
  | Screenshot locator bool
  | ToMatchImageSnapshot string

text \<open>
  What the runner does not decide: whether the page gets ready, after how many
  milliseconds a selector has no element attached or a visible one, after how many all
  images are complete (\<open>None\<close>: never), and the verdict of the image matcher of
  jest-image-snapshot on an image, given the options the runner passes.
\<close>

record env =
  cwd :: string
  pageReady :: bool
  detachedAfter :: "string \<Rightarrow> nat option"
  visibleAfter :: "string \<Rightarrow> nat option"
  imagesCompleteAfter :: "nat option"
  toMatchImageSnapshot :: "image_snapshot_options \<Rightarrow> screenshot \<Rightarrow> bool"

record page =
  page_document :: document
  trace :: "event list"

type_synonym step = "page \<Rightarrow> error option \<times> page"

definition emit :: "event \<Rightarrow> page \<Rightarrow> page" where
  "emit ev pg = pg\<lparr>trace := trace pg @ [ev]\<rparr>"

definition settled_within :: "nat option \<Rightarrow> nat \<Rightarrow> bool" where
  "settled_within t timeout = (case t of None \<Rightarrow> False | Some ms \<Rightarrow> ms \<le> timeout)"

text \<open>Awaited calls one after the other: the first rejection ends the sequence.\<close>

fun sequence :: "step list \<Rightarrow> step" where
  "sequence [] pg = (None, pg)"
| "sequence (f # fs) pg =
     (case f pg of (Some e, pg') \<Rightarrow> (Some e, pg') | (None, pg') \<Rightarrow> sequence fs pg')"

definition skip :: step where
  "skip pg = (None, pg)"

definition waitForPageReady :: "env \<Rightarrow> step" where
  "waitForPageReady env pg =
     (if pageReady env then None else Some (TimeoutError ''waitForPageReady''),
      emit WaitForPageReady pg)"

definition update_body :: "(element \<Rightarrow> element) \<Rightarrow> page \<Rightarrow> page" where
  "update_body f pg = pg\<lparr>page_document := (page_document pg)\<lparr>body := f (body (page_document pg))\<rparr>\<rparr>"

definition body_classList_add :: "string \<Rightarrow> step" where
  "body_classList_add c pg = (None, emit (BodyClassListAdd c) (update_body (classList_add c) pg))"

definition body_setAttribute :: "string \<Rightarrow> string \<Rightarrow> step" where
  "body_setAttribute name v pg =
     (None, emit (BodySetAttribute name v) (update_body (setAttribute name v) pg))"

definition page_waitForSelector :: "env \<Rightarrow> string \<Rightarrow> wait_state \<Rightarrow> nat \<Rightarrow> step" where
  "page_waitForSelector env sel st timeout pg =
     (if settled_within ((case st of Detached \<Rightarrow> detachedAfter env | Visible \<Rightarrow> visibleAfter env) sel) timeout
      then None else Some (TimeoutError sel),
      emit (WaitForSelector sel st timeout) pg)"

definition waitForTimeout :: "nat \<Rightarrow> step" where
  "waitForTimeout ms pg = (None, emit (WaitForTimeout ms) pg)"

definition waitForImages :: "env \<Rightarrow> step" where
  "waitForImages env pg =
     (if settled_within (imagesCompleteAfter env) PLAYWRIGHT_TIMEOUT_MS
      then None else Some (TimeoutError ''waitForFunction''),
      emit WaitForImages pg)"

text \<open>
  \<open>locator.screenshot({ ...options })\<close>. The page is captured as the viewport shows
  it. A locator is strict: it captures the one element its selector matches, is
  rejected when the selector matches several, and times out when it matches none.
\<close>

definition take_screenshot :: "locator \<Rightarrow> bool \<Rightarrow> page \<Rightarrow> (error + screenshot) \<times> page" where
  "take_screenshot loc omit pg =
     (let doc = page_document pg;
          pg' = emit (Screenshot loc omit) pg
      in case loc of
           PageTarget \<Rightarrow>
             (Inr \<lparr>shot_region = Viewport, shot_omitBackground = omit, shot_document = doc\<rparr>, pg')
         | Locator sel \<Rightarrow>
             (case querySelectorAll sel (elements doc) of
                [] \<Rightarrow> (Inl (TimeoutError sel), pg')
              | [i] \<Rightarrow>
                  (Inr \<lparr>shot_region = Box (getBoundingClientRect (elements doc ! i)),
                        shot_omitBackground = omit, shot_document = doc\<rparr>, pg')
              | _ \<Rightarrow> (Inl (StrictModeViolation sel), pg')))"

section \<open>The runner (lines 74-84 and 106-320)\<close>

text \<open>The options \<open>expect(image).toMatchImageSnapshot\<close> is called with (lines 310-319).\<close>

definition snapshot_options :: "env \<Rightarrow> string \<Rightarrow> image_snapshot_options" where
  "snapshot_options env ident =
     \<lparr>customSnapshotsDir = cwd env @ ''/frontend/__snapshots__'',
      opt_customSnapshotIdentifier = ident,
      comparisonMethod = Ssim,
      failureThreshold = 1 / 100,
      failureThresholdType = Percent\<rparr>"

definition expectLocatorToMatchStorySnapshot ::
    "env \<Rightarrow> locator \<Rightarrow> test_context \<Rightarrow> SupportedBrowserName \<Rightarrow> SnapshotTheme \<Rightarrow> bool \<Rightarrow> step" where
  "expectLocatorToMatchStorySnapshot env loc context browser theme omitBackground pg =
     (case take_screenshot loc omitBackground pg of
        (Inl e, pg') \<Rightarrow> (Some e, pg')
      | (Inr img, pg') \<Rightarrow>
          (let ident = customSnapshotIdentifier (context_id context) theme browser
           in (if toMatchImageSnapshot env (snapshot_options env ident) img
               then None else Some (ImageSnapshotMismatch ident),
               emit (ToMatchImageSnapshot ident) pg')))"

definition expectStoryToMatchFullPageSnapshot ::
    "env \<Rightarrow> test_context \<Rightarrow> SupportedBrowserName \<Rightarrow> SnapshotTheme \<Rightarrow> step" where
  "expectStoryToMatchFullPageSnapshot env context browser theme =
     expectLocatorToMatchStorySnapshot env PageTarget context browser theme False"

definition evaluate_scene_styling :: step where
  "evaluate_scene_styling pg =
     (None, emit SceneStyling (pg\<lparr>page_document := scene_styling (page_document pg)\<rparr>))"

definition expectStoryToMatchSceneSnapshot ::
    "env \<Rightarrow> test_context \<Rightarrow> SupportedBrowserName \<Rightarrow> SnapshotTheme \<Rightarrow> step" where
  "expectStoryToMatchSceneSnapshot env context browser theme =
     sequence
       [evaluate_scene_styling,
        expectLocatorToMatchStorySnapshot env (Locator ''main'') context browser theme False]"

definition evaluate_component_styling :: "SnapshotTheme \<Rightarrow> step" where
  "evaluate_component_styling theme pg =
     (case component_styling theme (page_document pg) of
        Inl e \<Rightarrow> (Some e, emit (ComponentStyling theme) pg)
      | Inr doc \<Rightarrow> (None, emit (ComponentStyling theme) (pg\<lparr>page_document := doc\<rparr>)))"

text \<open>The parameter \<open>targetSelector\<close> defaults to \<open>#storybook-root\<close> when it is absent.\<close>

definition expectStoryToMatchComponentSnapshot ::
    "env \<Rightarrow> test_context \<Rightarrow> SupportedBrowserName \<Rightarrow> SnapshotTheme \<Rightarrow> string option \<Rightarrow> step" where
  "expectStoryToMatchComponentSnapshot env context browser theme targetSelector =
     sequence
       [evaluate_component_styling theme,
        expectLocatorToMatchStorySnapshot env
          (Locator (with_default ''#storybook-root'' targetSelector)) context browser theme True]"

text \<open>The call of the function \<open>check\<close> holds; the first two take no target selector.\<close>

fun run_check ::
    "check_kind \<Rightarrow> env \<Rightarrow> test_context \<Rightarrow> SupportedBrowserName \<Rightarrow> SnapshotTheme \<Rightarrow>
     string option \<Rightarrow> step" where
  "run_check FullPageSnapshot env context browser theme targetSelector =
     expectStoryToMatchFullPageSnapshot env context browser theme"
| "run_check SceneSnapshot env context browser theme targetSelector =
     expectStoryToMatchSceneSnapshot env context browser theme"
| "run_check ComponentSnapshot env context browser theme targetSelector =
     expectStoryToMatchComponentSnapshot env context browser theme targetSelector"

text \<open>
  \<open>expectStoryToMatchSnapshot\<close> (lines 106-169). \<open>if (waitForSelector)\<close> is false for
  the absent and for the empty string.
\<close>

definition expectStoryToMatchSnapshot ::
    "env \<Rightarrow> test_context \<Rightarrow> story_context \<Rightarrow> SupportedBrowserName \<Rightarrow> step" where
  "expectStoryToMatchSnapshot env context storyContext browser =
     (let waitForLoaders =
            with_default True (test_option storyContext waitForLoadersToDisappear);
          waitFor = test_option storyContext waitForSelector;
          check = select_check storyContext;
          targetSelector = test_option storyContext snapshotTargetSelector
      in sequence
           [waitForPageReady env,
            body_classList_add ''storybook-test-runner'',
            (if waitForLoaders
             then page_waitForSelector env (join '','' LOADER_SELECTORS) Detached 1000
             else skip),
            (case waitFor of
               None \<Rightarrow> skip
             | Some sel \<Rightarrow>
                 if sel \<noteq> [] then page_waitForSelector env sel Visible PLAYWRIGHT_TIMEOUT_MS
                 else skip),
            waitForTimeout 400,
            waitForImages env,
            sequence [body_classList_add ''posthog-3000'', body_setAttribute ''theme'' ''light''],
            run_check check env context browser Light targetSelector,
            body_setAttribute ''theme'' ''dark'',
            run_check check env context browser Dark targetSelector])"

text \<open>\<open>postVisit\<close> (lines 74-84): snapshots are taken in the listed browsers only.\<close>

definition postVisit ::
    "env \<Rightarrow> test_context \<Rightarrow> story_context \<Rightarrow> SupportedBrowserName \<Rightarrow> step" where
  "postVisit env context storyContext currentBrowser =
     (let browsers = with_default [Chromium] (test_option storyContext snapshotBrowsers)
      in if currentBrowser \<in> set browsers
         then expectStoryToMatchSnapshot env context storyContext currentBrowser
         else skip)"

section \<open>The bundler configuration (\<open>webpackFinal\<close> of the Storybook configuration)\<close>

text \<open>
  A rule is read through its \<open>test\<close> property only: absent, present without a value
  (\<open>undefined\<close> or \<open>null\<close>, whose \<open>toString\<close> is a \<open>TypeError\<close>), or present with a
  value, given by the string \<open>toString\<close> returns. \<open>rule_body\<close> is the rest of the rule.
\<close>

datatype test_property = Absent | NoValue | Value string

record 'r rule =
  test :: test_property
  rule_body :: 'r

record resolve_options =
  extensions :: "string list option"
  alias_map :: "(string \<rightharpoonup> string) option"

record 'r module_options =
  rules :: "'r rule list option"

record 'r webpack_config =
  resolve :: "resolve_options option"
  module_opts :: "'r module_options option"

text \<open>\<open>createEntry('main')\<close> is not optional anywhere: its fields are all there.\<close>

record 'r main_config =
  main_extensions :: "string list"
  main_alias :: "string \<rightharpoonup> string"
  main_rules :: "'r rule list"

datatype js_error = TypeError

text \<open>\<open>String.prototype.includes\<close>.\<close>

fun string_includes :: "string \<Rightarrow> string \<Rightarrow> bool" where
  "string_includes [] sub = (sub = [])"
| "string_includes (c # cs) sub = (prefix sub (c # cs) \<or> string_includes cs sub)"

text \<open>The predicate of \<open>filter\<close> (line 42); \<open>None\<close> is the \<open>TypeError\<close> it throws.\<close>

definition is_mdx_rule :: "'r rule \<Rightarrow> bool option" where
  "is_mdx_rule rule =
     (case test rule of
        Absent \<Rightarrow> Some False
      | NoValue \<Rightarrow> None
      | Value s \<Rightarrow> Some (string_includes s ''.mdx''))"

text \<open>\<open>Array.prototype.filter\<close> with a predicate that may throw.\<close>

fun filter_rules :: "'r rule list \<Rightarrow> js_error + 'r rule list" where
  "filter_rules [] = Inr []"
| "filter_rules (r # rs) =
     (case is_mdx_rule r of
        None \<Rightarrow> Inl TypeError
      | Some keep \<Rightarrow>
          (case filter_rules rs of
             Inl e \<Rightarrow> Inl e
           | Inr kept \<Rightarrow> Inr (if keep then r # kept else kept)))"

text \<open>\<open>config.module?.rules\<close>, read as the empty list when it is absent.\<close>

definition config_rules :: "('r, 'a) webpack_config_scheme \<Rightarrow> 'r rule list" where
  "config_rules config =
     (case module_opts config of
        None \<Rightarrow> []
      | Some m \<Rightarrow> (case rules m of None \<Rightarrow> [] | Some rs \<Rightarrow> rs))"

text \<open>
  \<open>webpackFinal\<close> (lines 28-47). \<open>config.resolve!.extensions!\<close> throws when \<open>resolve\<close> is
  absent, and so does the spread of absent \<open>extensions\<close> into an array; the spread of
  an absent \<open>alias\<close> into an object adds nothing. The fields of \<open>config\<close> the function
  does not name are kept (\<open>...config\<close>).
\<close>

definition webpackFinal ::
    "'r main_config \<Rightarrow> ('r, 'a) webpack_config_scheme \<Rightarrow> js_error + ('r, 'a) webpack_config_scheme" where
  "webpackFinal mainConfig config =
     (case resolve config of
        None \<Rightarrow> Inl TypeError
      | Some res \<Rightarrow>
          (case extensions res of
             None \<Rightarrow> Inl TypeError
           | Some exts \<Rightarrow>
               (case filter_rules (config_rules config) of
                  Inl e \<Rightarrow> Inl e
                | Inr mdx \<Rightarrow>
                    Inr (config
                      \<lparr>resolve := Some (res
                         \<lparr>extensions := Some (exts @ main_extensions mainConfig),
                          alias_map := Some ((case alias_map res of None \<Rightarrow> Map.empty | Some a \<Rightarrow> a)
                                           ++ main_alias mainConfig)\<rparr>),
                       module_opts := Some
                         ((case module_opts config of
                             None \<Rightarrow> \<lparr>rules = None\<rparr>
                           | Some m \<Rightarrow> m)
                          \<lparr>rules := Some (main_rules mainConfig @ mdx)\<rparr>)\<rparr>))))"

section \<open>Predicates the theorems are stated with\<close>

text \<open>A rule whose \<open>test\<close> has a value whose string form contains \<open>.mdx\<close>.\<close>

definition has_mdx_test :: "'r rule \<Rightarrow> bool" where
  "has_mdx_test r = (case test r of Value s \<Rightarrow> sublist ''.mdx'' s | _ \<Rightarrow> False)"







section \<open>Example inputs\<close>

definition plain_element ::
    "string \<Rightarrow> string option \<Rightarrow> string list \<Rightarrow> real \<Rightarrow> real \<Rightarrow> real \<Rightarrow> real \<Rightarrow> element" where
  "plain_element tag i cs x y w h =
     \<lparr>localName = tag, elem_id = i, classList = cs, attributes = [], style = [],
      layoutLeft = x, layoutTop = y, layoutWidth = w, layoutHeight = h\<rparr>"

definition example_body :: element where
  "example_body = plain_element ''body'' None [] 0 0 1280 720"

definition popover_document :: document where
  "popover_document =
     \<lparr>body = example_body,
      elements =
        [plain_element ''div'' (Some ''storybook-root'') [] 8 8 100 50,
         plain_element ''div'' None [''Popover''] 20 40 200 100,
         plain_element ''div'' None [''Popover''] (- 30) 10 50 10]\<rparr>"

definition rootless_document :: document where
  "rootless_document =
     \<lparr>body = example_body,
      elements = [plain_element ''div'' (Some ''root'') [''target''] 0 0 100 50]\<rparr>"


definition example_env :: env where
  "example_env =
     \<lparr>cwd = ''/repo'', pageReady = True, detachedAfter = (\<lambda>sel. Some 0),
      visibleAfter = (\<lambda>sel. Some 0), imagesCompleteAfter = Some 0,
      toMatchImageSnapshot = (\<lambda>opts img. True)\<rparr>"

definition page_of :: "document \<Rightarrow> page" where
  "page_of doc = \<lparr>page_document = doc, trace = []\<rparr>"

definition example_context :: test_context where
  "example_context = \<lparr>context_id = ''lemon-ui-button--default''\<rparr>"

definition example_main_config :: "string main_config" where
  "example_main_config =
     \<lparr>main_extensions = [''.js'', ''.ts'', ''.tsx''],
      main_alias = [''~'' \<mapsto> ''frontend/src''],
      main_rules = [\<lparr>test = Value ''/.tsx?$/'', rule_body = ''babel-loader''\<rparr>]\<rparr>"

definition example_resolve :: resolve_options where
  "example_resolve = \<lparr>extensions = Some [''.mjs'', ''.js''], alias_map = None\<rparr>"

definition example_config :: "string webpack_config" where
  "example_config =
     \<lparr>resolve = Some example_resolve,
      module_opts = Some \<lparr>rules = Some
        [\<lparr>test = Value ''/.css$/'', rule_body = ''css-loader''\<rparr>,
         \<lparr>test = Value ''/.mdx$/'', rule_body = ''mdx-loader''\<rparr>,
         \<lparr>test = Absent, rule_body = ''raw-loader''\<rparr>]\<rparr>\<rparr>"



definition scene_document :: document where
  "scene_document =
     \<lparr>body = example_body,
      elements =
        [set_style ''overflow'' (Keyword ''hidden'')
           (plain_element ''div'' None [''Navigation3000''] 0 0 1280 720),
         plain_element ''main'' None [] 240 0 1040 2000]\<rparr>"

definition stuck_env :: env where
  "stuck_env = example_env\<lparr>detachedAfter := (\<lambda>sel. Some 1500)\<rparr>"

definition default_story :: story_context where
  "default_story = \<lparr>parameters = None\<rparr>"


section \<open>The events of a verification\<close>




section \<open>Lemmas\<close>

subsection \<open>Finding the root element\<close>

lemma getElementById_None:
  "getElementById i es = None \<longleftrightarrow> (\<forall>e\<in>set es. elem_id e \<noteq> Some i)"
proof -
  have "getElementById i es = None \<longleftrightarrow> filter (\<lambda>k. elem_id (es ! k) = Some i) [0..<length es] = []"
    by (simp add: getElementById_def split: list.splits)
  also have "\<dots> \<longleftrightarrow> (\<forall>k<length es. elem_id (es ! k) \<noteq> Some i)"
    by (auto simp: filter_empty_conv)
  also have "\<dots> \<longleftrightarrow> (\<forall>e\<in>set es. elem_id e \<noteq> Some i)"
    by (simp add: all_set_conv_all_nth)
  finally show ?thesis .
qed


subsection \<open>The expansion writes the size of the root only\<close>













subsection \<open>The styling callback of the component check\<close>

lemma component_styling_missing_root:
  assumes "\<forall>e\<in>set (elements doc). elem_id e \<noteq> Some ''storybook-root''"
  shows "component_styling theme doc = Inl (Error ''Could not find root element'')"
  using assms getElementById_None[of "''storybook-root''" "elements doc"]
  by (simp add: component_styling_def)

lemma component_check_missing_root:
  assumes "\<forall>e\<in>set (elements (page_document pg)). elem_id e \<noteq> Some ''storybook-root''"
  shows "expectStoryToMatchComponentSnapshot env context browser theme targetSelector pg =
           (Some (Error ''Could not find root element''), emit (ComponentStyling theme) pg)"
  using component_styling_missing_root[OF assms, of theme]
  by (simp add: expectStoryToMatchComponentSnapshot_def evaluate_component_styling_def)


subsection \<open>Sequences of steps\<close>

lemma sequence_one: "sequence [f] pg = f pg"
  by (cases "f pg") (auto split: option.splits)

lemma sequence_Cons_None: "f pg = (None, pg') \<Longrightarrow> sequence (f # fs) pg = sequence fs pg'"
  by simp

lemma sequence_Cons_Some: "f pg = (Some e, pg') \<Longrightarrow> sequence (f # fs) pg = (Some e, pg')"
  by simp



subsection \<open>The box of the root after one popover and after all\<close>














subsection \<open>Evaluation on the example documents\<close>





lemma classList_set_style: "classList (set_style property v e) = classList e"
  by (simp add: set_style_def)

lemma classList_plain_element: "classList (plain_element tag i cl x y w h) = cl"
  by (simp add: plain_element_def)

lemma localName_plain_element: "localName (plain_element tag i cl x y w h) = tag"
  by (simp add: plain_element_def)

lemma elem_id_plain_element: "elem_id (plain_element tag i cl x y w h) = i"
  by (simp add: plain_element_def)

subsection \<open>The rules of the bundler configuration\<close>

lemma string_includes_sublist: "string_includes s sub \<longleftrightarrow> sublist sub s"
  by (induction s) (auto simp: sublist_Cons_right)

lemma filter_rules_Inr:
  "\<forall>r\<in>set rs. test r \<noteq> NoValue \<Longrightarrow> filter_rules rs = Inr (filter has_mdx_test rs)"
  by (induction rs)
     (auto simp: is_mdx_rule_def has_mdx_test_def string_includes_sublist split: test_property.splits)

subsection \<open>Selectors\<close>


lemma lower_navigation: "map lower_char ''Navigation3000'' = ''navigation3000''"
  by code_simp

lemma lower_div: "map lower_char ''div'' = ''div''"
  by code_simp

lemma lower_main: "map lower_char ''main'' = ''main''"
  by code_simp

lemma localName_set_style: "localName (set_style property v e) = localName e"
  by (simp add: set_style_def)

lemma querySelector_no_match:
  assumes "\<forall>e\<in>set es. \<not> matches sel e"
  shows "querySelector sel es = None"
proof -
  have "filter (\<lambda>i. matches sel (es ! i)) [0..<length es] = []"
    using assms by (simp add: filter_empty_conv)
  then show ?thesis
    by (simp add: querySelector_def querySelectorAll_def)
qed

lemma matches_navigation:
  "matches ''Navigation3000'' e \<longleftrightarrow> map lower_char (localName e) = ''navigation3000''"
proof -
  have "matches ''Navigation3000'' e \<longleftrightarrow>
          map lower_char ''Navigation3000'' = map lower_char (localName e)"
    by (simp del: list.map)
  then show ?thesis
    unfolding lower_navigation by auto
qed

lemma matches_main: "matches ''main'' e \<longleftrightarrow> map lower_char (localName e) = ''main''"
proof -
  have "matches ''main'' e \<longleftrightarrow> map lower_char ''main'' = map lower_char (localName e)"
    by (simp del: list.map)
  then show ?thesis
    unfolding lower_main by auto
qed

lemma scene_styling_without_tag:
  assumes "\<forall>e\<in>set (elements doc). map lower_char (localName e) \<noteq> ''navigation3000''"
  shows "scene_styling doc = doc"
proof -
  have "\<forall>e\<in>set (elements doc). \<not> matches ''Navigation3000'' e"
    using assms by (simp add: matches_navigation del: matches.simps)
  then have "querySelector ''Navigation3000'' (elements doc) = None"
    by (rule querySelector_no_match)
  then show ?thesis
    by (simp add: scene_styling_def)
qed

lemma scene_document_unstyled: "scene_styling scene_document = scene_document"
  by (rule scene_styling_without_tag)
     (simp add: scene_document_def localName_set_style localName_plain_element lower_div lower_main
        del: list.map)

subsection \<open>The events of the steps\<close>


























section \<open>The claims\<close>




text \<open>
  C2, as amended. The snapshot identifier is injective over the triples (story
  identifier, theme, browser) whose theme is not \<open>legacy\<close>: two such triples with the
  same identifier are the same triple.
\<close>

theorem snapshot_identifier_injective:
  assumes "t1 \<noteq> Legacy" and "t2 \<noteq> Legacy"
    and "customSnapshotIdentifier i1 t1 b1 = customSnapshotIdentifier i2 t2 b2"
  shows "i1 = i2 \<and> t1 = t2 \<and> b1 = b2"
proof -
  from assms(3) have "rev (customSnapshotIdentifier i1 t1 b1) = rev (customSnapshotIdentifier i2 t2 b2)"
    by simp
  with assms(1,2) show ?thesis
    by (cases t1; cases t2; cases b1; cases b2) (simp_all add: customSnapshotIdentifier_def)
qed

theorem snapshot_identifier_injective_witness:
  "customSnapshotIdentifier ''a'' Light Webkit = ''a--light--webkit'' \<and>
   customSnapshotIdentifier ''a--light'' Dark Chromium \<noteq> customSnapshotIdentifier ''a'' Light Webkit \<and>
   customSnapshotIdentifier ''a'' Light Chromium \<noteq> customSnapshotIdentifier ''a'' Dark Chromium"
  using snapshot_identifier_injective[of Dark Light "''a--light''" Chromium "''a''" Webkit]
    snapshot_identifier_injective[of Light Dark "''a''" Chromium "''a''" Chromium]
    snapshot_identifier_injective[of Light Light "''a''" Webkit "''a''" Webkit]
  by (auto simp: customSnapshotIdentifier_def)

text \<open>
  C2 as stated fails with the \<open>legacy\<close> theme, which adds no suffix: a story
  identifier that ends in \<open>--light\<close> under \<open>legacy\<close> is the identifier of the story
  without that ending under \<open>light\<close>.
\<close>

theorem snapshot_identifier_collision:
  "customSnapshotIdentifier ''a--light'' Legacy Chromium = customSnapshotIdentifier ''a'' Light Chromium
   \<and> (''a--light'', Legacy, Chromium) \<noteq> (''a'', Light, Chromium)"
  by (simp add: customSnapshotIdentifier_def)

text \<open>
  C4 fails on the code: the selector of the scene check is the type selector
  \<open>Navigation3000\<close>, not the class selector \<open>.Navigation3000\<close>. On a page whose
  navigation container is a \<open>div\<close> of class \<open>Navigation3000\<close> with \<open>overflow: hidden\<close>,
  the scene check captures the locator \<open>main\<close> and leaves the document, and so the
  overflow of the container, as it was.
\<close>

theorem scene_navigation_overflow_stays_hidden:
  "classList (elements scene_document ! 0) = [''Navigation3000''] \<and>
   map_of (style (elements scene_document ! 0)) ''overflow'' = Some (Keyword ''hidden'') \<and>
   expectStoryToMatchSceneSnapshot example_env example_context Chromium Light (page_of scene_document) =
     (None,
      \<lparr>page_document = scene_document,
       trace = [SceneStyling, Screenshot (Locator ''main'') False,
                ToMatchImageSnapshot ''lemon-ui-button--default--light'']\<rparr>)"
proof -
  have q: "querySelectorAll ''main'' (elements scene_document) = [1]"
    by (simp add: querySelectorAll_def scene_document_def matches_main localName_set_style
        localName_plain_element lower_div lower_main upt_rec del: list.map matches.simps)
  have 1: "evaluate_scene_styling (page_of scene_document) =
             (None, \<lparr>page_document = scene_document, trace = [SceneStyling]\<rparr>)"
    by (simp add: evaluate_scene_styling_def scene_document_unstyled page_of_def emit_def)
  have 2: "expectLocatorToMatchStorySnapshot example_env (Locator ''main'') example_context
             Chromium Light False \<lparr>page_document = scene_document, trace = [SceneStyling]\<rparr> =
           (None, \<lparr>page_document = scene_document,
                   trace = [SceneStyling, Screenshot (Locator ''main'') False,
                            ToMatchImageSnapshot ''lemon-ui-button--default--light'']\<rparr>)"
    by (simp add: expectLocatorToMatchStorySnapshot_def take_screenshot_def q Let_def emit_def
        example_env_def example_context_def customSnapshotIdentifier_def)
  have 3: "expectStoryToMatchSceneSnapshot example_env example_context Chromium Light
             (page_of scene_document) =
           (None, \<lparr>page_document = scene_document,
                   trace = [SceneStyling, Screenshot (Locator ''main'') False,
                            ToMatchImageSnapshot ''lemon-ui-button--default--light'']\<rparr>)"
    unfolding expectStoryToMatchSceneSnapshot_def
    by (simp only: sequence_Cons_None[where f = evaluate_scene_styling, OF 1] sequence_one 2)
  have 4: "classList (elements scene_document ! 0) = [''Navigation3000'']"
    by (simp add: scene_document_def classList_set_style classList_plain_element)
  have 5: "map_of (style (elements scene_document ! 0)) ''overflow'' = Some (Keyword ''hidden'')"
    by (simp add: scene_document_def set_style_def plain_element_def)
  show ?thesis
    using 3 4 5 by simp
qed

text \<open>
  C5. For every story context exactly one check is selected. The full-page check is
  selected iff the layout is \<open>fullscreen\<close> and navigation is not excluded, the scene
  check iff the layout is \<open>fullscreen\<close> and navigation is excluded, and the component
  check for every other layout, the absent one included.
\<close>

theorem select_check_total_exclusive:
  "(select_check sc = FullPageSnapshot \<longleftrightarrow>
      layout_of sc = Some ''fullscreen'' \<and>
      \<not> with_default False (test_option sc excludeNavigationFromSnapshot)) \<and>
   (select_check sc = SceneSnapshot \<longleftrightarrow>
      layout_of sc = Some ''fullscreen'' \<and>
      with_default False (test_option sc excludeNavigationFromSnapshot)) \<and>
   (select_check sc = ComponentSnapshot \<longleftrightarrow> layout_of sc \<noteq> Some ''fullscreen'') \<and>
   (\<exists>!k. select_check sc = k)"
  by (simp add: select_check_def)

text \<open>
  C6. When \<open>waitForLoadersToDisappear\<close> is true or absent and an element matching the
  loader selectors is still attached after 1000 ms (it is detached later, or never),
  the verification fails with a timeout, and all it asked of the page before is to get
  ready, to add the marker class and to wait for the loaders: no screenshot was taken.
  When the page does not even get ready, the timeout is that of the first wait.
\<close>

theorem stuck_loader_times_out_before_screenshot:
  assumes "test_option sc waitForLoadersToDisappear \<noteq> Some False"
    and "case detachedAfter env (join '','' LOADER_SELECTORS) of
           None \<Rightarrow> True | Some ms \<Rightarrow> 1000 < ms"
  shows "\<exists>pg'. expectStoryToMatchSnapshot env ctx sc browser pg =
                  (Some (TimeoutError (if pageReady env then join '','' LOADER_SELECTORS
                                        else ''waitForPageReady'')), pg') \<and>
               trace pg' = trace pg @
                 (if pageReady env
                  then [WaitForPageReady, BodyClassListAdd ''storybook-test-runner'',
                        WaitForSelector (join '','' LOADER_SELECTORS) Detached 1000]
                  else [WaitForPageReady])"
proof -
  let ?sel = "join '','' LOADER_SELECTORS"
  have w: "with_default True (test_option sc waitForLoadersToDisappear)"
    using assms(1) by (cases "test_option sc waitForLoadersToDisappear") (simp_all add: with_default_def)
  have t: "\<not> settled_within (detachedAfter env ?sel) 1000"
    using assms(2) by (simp add: settled_within_def split: option.splits)
  show ?thesis
  proof (cases "pageReady env")
    case False
    then have 1: "waitForPageReady env pg =
        (Some (TimeoutError ''waitForPageReady''), emit WaitForPageReady pg)"
      by (simp add: waitForPageReady_def)
    show ?thesis
      unfolding expectStoryToMatchSnapshot_def Let_def
      by (simp only: sequence_Cons_Some[where f = "waitForPageReady env", OF 1])
         (simp add: False emit_def)
  next
    case True
    define pg1 where "pg1 = emit WaitForPageReady pg"
    define pg2 where "pg2 = emit (BodyClassListAdd ''storybook-test-runner'')
                              (update_body (classList_add ''storybook-test-runner'') pg1)"
    have 1: "waitForPageReady env pg = (None, pg1)"
      using True by (simp add: waitForPageReady_def pg1_def)
    have 2: "body_classList_add ''storybook-test-runner'' pg1 = (None, pg2)"
      by (simp add: body_classList_add_def pg2_def)
    have 3: "(if with_default True (test_option sc waitForLoadersToDisappear)
              then page_waitForSelector env (join '','' LOADER_SELECTORS) Detached 1000
              else skip) pg2 =
             (Some (TimeoutError ?sel), emit (WaitForSelector ?sel Detached 1000) pg2)"
      using w t by (simp add: page_waitForSelector_def)
    have tr: "trace (emit (WaitForSelector ?sel Detached 1000) pg2) =
                trace pg @ [WaitForPageReady, BodyClassListAdd ''storybook-test-runner'',
                            WaitForSelector ?sel Detached 1000]"
      by (simp add: pg2_def pg1_def emit_def update_body_def)
    show ?thesis
      unfolding expectStoryToMatchSnapshot_def Let_def
      by (simp only: sequence_Cons_None[where f = "waitForPageReady env", OF 1]
            sequence_Cons_None[where f = "body_classList_add ''storybook-test-runner''", OF 2]
            sequence_Cons_Some[where f = "if with_default True (test_option sc waitForLoadersToDisappear)
              then page_waitForSelector env (join '','' LOADER_SELECTORS) Detached 1000
              else skip", OF 3])
         (simp add: True tr)
  qed
qed

theorem stuck_loader_witness:
  "test_option default_story waitForLoadersToDisappear = None \<and>
   detachedAfter stuck_env (join '','' LOADER_SELECTORS) = Some 1500 \<and>
   (\<exists>pg'. expectStoryToMatchSnapshot stuck_env example_context default_story Chromium
             (page_of popover_document) =
             (Some (TimeoutError (join '','' LOADER_SELECTORS)), pg') \<and>
          trace pg' = [WaitForPageReady, BodyClassListAdd ''storybook-test-runner'',
                       WaitForSelector (join '','' LOADER_SELECTORS) Detached 1000])"
proof -
  have 1: "test_option default_story waitForLoadersToDisappear = None"
    by (simp add: test_option_def default_story_def)
  have 2: "detachedAfter stuck_env (join '','' LOADER_SELECTORS) = Some 1500"
    by (simp add: stuck_env_def)
  have 3: "pageReady stuck_env"
    by (simp add: stuck_env_def example_env_def)
  from stuck_loader_times_out_before_screenshot[where sc = default_story and env = stuck_env
      and ctx = example_context and browser = Chromium and pg = "page_of popover_document"]
  show ?thesis
    using 1 2 3 by (simp add: page_of_def)
qed

text \<open>
  C7. In the component check, when no element has the id \<open>storybook-root\<close>, the check
  fails with the error \<open>Could not find root element\<close> raised by the styling callback;
  the callback is the only thing the check asked of the page, so no screenshot was
  attempted, and the document is as it was.
\<close>

theorem missing_root_fails_without_screenshot:
  assumes "\<forall>e\<in>set (elements (page_document pg)). elem_id e \<noteq> Some ''storybook-root''"
  shows "\<exists>pg'. expectStoryToMatchComponentSnapshot env ctx browser theme targetSelector pg =
                  (Some (Error ''Could not find root element''), pg') \<and>
               trace pg' = trace pg @ [ComponentStyling theme] \<and>
               page_document pg' = page_document pg"
  using component_check_missing_root[OF assms, where env = env and browser = browser
      and theme = theme and targetSelector = targetSelector]
  by (simp add: emit_def)

theorem missing_root_fails_witness:
  "getElementById ''storybook-root'' (elements rootless_document) = None \<and>
   (\<exists>pg'. expectStoryToMatchComponentSnapshot example_env example_context Chromium Light None
             (page_of rootless_document) =
             (Some (Error ''Could not find root element''), pg') \<and>
          trace pg' = [ComponentStyling Light])"
proof -
  have h: "\<forall>e\<in>set (elements (page_document (page_of rootless_document))).
             elem_id e \<noteq> Some ''storybook-root''"
    by (simp add: page_of_def rootless_document_def elem_id_plain_element)
  have g: "getElementById ''storybook-root'' (elements rootless_document) = None"
    using h by (simp add: getElementById_None page_of_def)
  from missing_root_fails_without_screenshot[OF h, where env = example_env
      and ctx = example_context and browser = Chromium and theme = Light and targetSelector = None]
  show ?thesis
    using g by (auto simp: page_of_def)
qed



text \<open>
  C9. When \<open>resolve.extensions\<close> is there and no rule has a valueless \<open>test\<close>,
  \<open>webpackFinal\<close> returns a configuration whose rules are the rules of the base
  configuration followed by those incoming rules whose \<open>test\<close> has a string form
  containing \<open>.mdx\<close>, whose extensions are the incoming ones followed by the base
  ones, and whose aliases are the incoming ones overridden by the base ones.
\<close>

theorem webpackFinal_merge:
  assumes "resolve config = Some res" and "extensions res = Some exts"
    and "\<forall>r\<in>set (config_rules config). test r \<noteq> NoValue"
  shows "\<exists>out. webpackFinal mainConfig config = Inr out \<and>
           config_rules out = main_rules mainConfig @ filter has_mdx_test (config_rules config) \<and>
           resolve out = Some (res\<lparr>extensions := Some (exts @ main_extensions mainConfig),
              alias_map := Some ((case alias_map res of None \<Rightarrow> Map.empty | Some a \<Rightarrow> a)
                                  ++ main_alias mainConfig)\<rparr>)"
  using assms filter_rules_Inr[of "config_rules config"]
  by (auto simp: webpackFinal_def config_rules_def split: option.splits)

theorem webpackFinal_merge_witness:
  "\<exists>out. webpackFinal example_main_config example_config = Inr out \<and>
     config_rules out =
       [\<lparr>test = Value ''/.tsx?$/'', rule_body = ''babel-loader''\<rparr>,
        \<lparr>test = Value ''/.mdx$/'', rule_body = ''mdx-loader''\<rparr>] \<and>
     resolve out = Some \<lparr>extensions = Some [''.mjs'', ''.js'', ''.js'', ''.ts'', ''.tsx''],
                          alias_map = Some [''~'' \<mapsto> ''frontend/src'']\<rparr>"
proof -
  have 1: "resolve example_config = Some example_resolve"
    by (simp add: example_config_def)
  have 2: "extensions example_resolve = Some [''.mjs'', ''.js'']"
    by (simp add: example_resolve_def)
  have 3: "\<forall>r\<in>set (config_rules example_config). test r \<noteq> NoValue"
    by (simp add: example_config_def config_rules_def)
  have 4: "sublist ''.mdx'' ''/.mdx$/''" "\<not> sublist ''.mdx'' ''/.css$/''"
    by code_simp+
  have 5: "filter has_mdx_test (config_rules example_config) =
             [\<lparr>test = Value ''/.mdx$/'', rule_body = ''mdx-loader''\<rparr>]"
    using 4 by (simp add: example_config_def config_rules_def has_mdx_test_def)
  from webpackFinal_merge[OF 1 2 3, of example_main_config] show ?thesis
    unfolding 5 by (simp add: example_main_config_def example_resolve_def)
qed



end
